theory Spec2Isabelle
  imports Complex_Main
begin

section \<open>Input validation of cleanlab (cleanlab/internal/validation.py)\<close>

text \<open>
  The module checks a dataset \<open>X\<close>, labels \<open>y\<close> and predicted probabilities
  \<open>pred_probs\<close>. Every function either returns \<open>None\<close> (or an array) or raises.
  A raise is the left summand of a sum type, a normal return the right one.
\<close>

subsection \<open>Exceptions and messages\<close>

text \<open>
  The exception classes that occur. \<open>NonException\<close> stands for a \<open>BaseException\<close>
  that is not an \<open>Exception\<close> (\<open>KeyboardInterrupt\<close>, \<open>SystemExit\<close>): a bare
  \<open>except:\<close> catches it, \<open>except Exception:\<close> does not.
\<close>

datatype exc_kind =
  TypeError | ValueError | IndexError | KeyError | AttributeError | OtherException | NonException

fun is_Exception :: "exc_kind \<Rightarrow> bool" where
  "is_Exception NonException = False"
| "is_Exception _ = True"

text \<open>
  A message is the sequence of its pieces: literal text, a formatted integer
  (\<open>{num_examples}\<close> in an f-string) and a formatted array (\<open>str(unique_classes)\<close>).
\<close>

datatype msg_part = Txt string | Num int | Arr "int list"

type_synonym message = "msg_part list"

datatype error = Error exc_kind message

fun kind_of :: "error \<Rightarrow> exc_kind" where
  "kind_of (Error k m) = k"

subsection \<open>Python lists and numpy arrays\<close>

text \<open>
  A Python list of labels may be nested. Labels are integers here (the contents of
  string or float labels play no part in the checks of the module), of a size
  that numpy keeps as \<open>int64\<close>.
\<close>

datatype pyobj = PyInt int | PyList "pyobj list"

text \<open>A numpy array: its shape and its elements in row-major order.\<close>

record 'a ndarray =
  shape :: "nat list"
  elems :: "'a list"

definition ndim :: "'a ndarray \<Rightarrow> nat" where
  "ndim a = length (shape a)"

text \<open>
  \<open>len(a)\<close> of an array is its first dimension; a 0-dimensional array has no length
  (\<open>TypeError: len() of unsized object\<close>).
\<close>

definition np_len :: "'a ndarray \<Rightarrow> error + nat" where
  "np_len a = (case shape a of
      [] \<Rightarrow> Inl (Error TypeError [Txt ''len() of unsized object''])
    | n # ds \<Rightarrow> Inr n)"

text \<open>
  The shape numpy finds for a nested list: an integer is a scalar, an empty list
  has shape \<open>(0,)\<close>, and the items of a list must all have one shape. \<open>None\<close>
  is the ragged case, where \<open>np.asarray\<close> raises (inhomogeneous shape; numpy
  before 1.24 built an array of objects instead).
\<close>

fun list_shape :: "pyobj \<Rightarrow> nat list option" where
  "list_shape (PyInt i) = Some []"
| "list_shape (PyList xs) =
     (case map list_shape xs of
        [] \<Rightarrow> Some [0]
      | s # ss \<Rightarrow>
          (case s of
             None \<Rightarrow> None
           | Some d \<Rightarrow> if list_all (\<lambda>t. t = Some d) ss then Some (length xs # d) else None))"

fun flat :: "pyobj \<Rightarrow> int list" where
  "flat (PyInt i) = [i]"
| "flat (PyList xs) = concat (map flat xs)"

definition np_asarray_list :: "pyobj list \<Rightarrow> error + int ndarray" where
  "np_asarray_list xs =
     (case list_shape (PyList xs) of
        None \<Rightarrow> Inl (Error ValueError
          [Txt ''setting an array element with a sequence. The requested array has an inhomogeneous shape.''])
      | Some s \<Rightarrow> Inr \<lparr>shape = s, elems = flat (PyList xs)\<rparr>)"

text \<open>\<open>a.flatten()\<close>: one dimension holding all the elements.\<close>

definition np_flatten :: "'a ndarray \<Rightarrow> 'a ndarray" where
  "np_flatten a = \<lparr>shape = [length (elems a)], elems = elems a\<rparr>"

text \<open>\<open>np.unique(a)\<close>: the sorted distinct elements; \<open>np.arange(n)\<close>: \<open>0, ..., n-1\<close>.\<close>

definition np_unique :: "int ndarray \<Rightarrow> int list" where
  "np_unique a = sort (remdups (elems a))"

definition np_arange :: "nat \<Rightarrow> int list" where
  "np_arange n = map int [0..<n]"

subsection \<open>Labels\<close>

text \<open>
  The forms of \<open>y\<close>: a list, a numpy array, a numpy scalar (\<open>np.generic\<close>), a
  pandas Series (its values), a pandas DataFrame (its number of columns and its
  rows, each of that length), or any other object, given by what \<open>np.asarray\<close>
  makes of it.
\<close>

datatype labels =
    YList "pyobj list"
  | YArray "int ndarray"
  | YGeneric int
  | YSeries "int list"
  | YDataFrame nat "int list list"
  | YOther "error + int ndarray"

text \<open>\<open>isinstance(y, (list, np.ndarray, np.generic, pd.Series, pd.DataFrame))\<close>\<close>

fun accepted_labels_type :: "labels \<Rightarrow> bool" where
  "accepted_labels_type (YOther r) = False"
| "accepted_labels_type _ = True"

text \<open>\<open>df.values\<close>: the two-dimensional array of a DataFrame.\<close>

definition df_values :: "nat \<Rightarrow> int list list \<Rightarrow> int ndarray" where
  "df_values ncols rows = \<lparr>shape = [length rows, ncols], elems = concat rows\<rparr>"

fun np_asarray :: "labels \<Rightarrow> error + int ndarray" where
  "np_asarray (YList xs) = np_asarray_list xs"
| "np_asarray (YArray a) = Inr a"
| "np_asarray (YGeneric v) = Inr \<lparr>shape = [], elems = [v]\<rparr>"
| "np_asarray (YSeries xs) = Inr \<lparr>shape = [length xs], elems = xs\<rparr>"
| "np_asarray (YDataFrame ncols rows) = Inr (df_values ncols rows)"
| "np_asarray (YOther r) = r"

text \<open>
  \<open>labels_to_array\<close>: a Series gives \<open>y.to_numpy()\<close>; a DataFrame must have one
  column and is flattened; anything else goes through \<open>np.asarray\<close>, whose
  exception (caught by a bare \<open>except:\<close>) is replaced by a \<open>ValueError\<close>.
\<close>

fun labels_to_array :: "labels \<Rightarrow> error + int ndarray" where
  "labels_to_array (YSeries xs) = Inr \<lparr>shape = [length xs], elems = xs\<rparr>"
| "labels_to_array (YDataFrame ncols rows) =
     (let y = df_values ncols rows in
      if shape y ! 1 \<noteq> 1
      then Inl (Error ValueError [Txt ''labels must be one dimensional.''])
      else Inr (np_flatten y))"
| "labels_to_array y =
     (case np_asarray y of
        Inr a \<Rightarrow> Inr a
      | Inl e \<Rightarrow> Inl (Error ValueError
          [Txt ''List of labels must be convertable to 1D numpy array via: np.ndarray(labels).'']))"

text \<open>
  \<open>assert_valid_class_labels\<close>: the array is one-dimensional and, unless missing
  classes are allowed, has at least two distinct values, which are \<open>0, ..., K-1\<close>.
  \<open>(unique_classes != np.arange(len(unique_classes))).any()\<close> compares the two
  arrays position by position.
\<close>

definition assert_valid_class_labels :: "int ndarray \<Rightarrow> bool \<Rightarrow> error + unit" where
  "assert_valid_class_labels y allow_missing_classes =
     (if ndim y \<noteq> 1
      then Inl (Error ValueError [Txt ''labels must be 1D numpy array.''])
      else if \<not> allow_missing_classes
      then (let unique_classes = np_unique y in
            if length unique_classes < 2
            then Inl (Error ValueError [Txt ''Labels must contain at least 2 classes.''])
            else if list_ex (\<lambda>(u, k). u \<noteq> k)
                      (zip unique_classes (np_arange (length unique_classes)))
            then Inl (Error TypeError
              [Txt ''cleanlab requires zero-indexed integer labels (0,1,2,..,K-1), but in your case: np.unique(labels) = '',
               Arr unique_classes,
               Txt ''. Every class in (0,1,2,..,K-1) must be present in labels as well.''])
            else Inr ())
      else Inr ())"

subsection \<open>Datasets\<close>

text \<open>
  \<open>X\<close> is duck-typed: the module only asks for \<open>len(X)\<close>, \<open>X.shape[0]\<close>,
  \<open>X.iloc[idx]\<close> and \<open>X[idx]\<close>. An object of a class the module does not know is
  given by what these operations do on it.
\<close>

record obj =
  obj_len :: "error + nat"
  obj_shape0 :: "error + int"
  obj_getitem :: "int list \<Rightarrow> error + unit"

text \<open>
  A pandas DataFrame or Series: its number of rows, and what \<open>X[idx]\<close> does
  (selection by column or index labels, which depends on the labels it has).
\<close>

record pandas =
  pd_nrows :: nat
  pd_getitem :: "int list \<Rightarrow> error + unit"

datatype dataset =
    XNone
  | XList "pyobj list"
  | XArray "real ndarray"
  | XPandas pandas
  | XTorch obj
  | XTf obj
  | XObject obj

text \<open>Which of the optional libraries can be imported.\<close>

record env =
  torch_installed :: bool
  tensorflow_installed :: bool

fun is_None :: "dataset \<Rightarrow> bool" where
  "is_None XNone = True"
| "is_None _ = False"

text \<open>
  \<open>import torch; isinstance(X, torch.utils.data.Dataset)\<close> inside \<open>try\<close>: false
  when the import fails.
\<close>

fun is_torch_dataset :: "env \<Rightarrow> dataset \<Rightarrow> bool" where
  "is_torch_dataset e (XTorch d) = torch_installed e"
| "is_torch_dataset e _ = False"

fun is_tf_dataset :: "env \<Rightarrow> dataset \<Rightarrow> bool" where
  "is_tf_dataset e (XTf d) = tensorflow_installed e"
| "is_tf_dataset e _ = False"

definition in_bounds :: "nat \<Rightarrow> int list \<Rightarrow> bool" where
  "in_bounds n idx = list_all (\<lambda>i. - int n \<le> i \<and> i < int n) idx"

fun py_len :: "dataset \<Rightarrow> error + nat" where
  "py_len XNone = Inl (Error TypeError [Txt ''object of type NoneType has no len()''])"
| "py_len (XList xs) = Inr (length xs)"
| "py_len (XArray a) = np_len a"
| "py_len (XPandas p) = Inr (pd_nrows p)"
| "py_len (XTorch d) = obj_len d"
| "py_len (XTf d) = obj_len d"
| "py_len (XObject d) = obj_len d"

fun py_shape0 :: "dataset \<Rightarrow> error + int" where
  "py_shape0 XNone = Inl (Error AttributeError [Txt ''NoneType object has no attribute shape''])"
| "py_shape0 (XList xs) = Inl (Error AttributeError [Txt ''list object has no attribute shape''])"
| "py_shape0 (XArray a) =
     (case shape a of
        [] \<Rightarrow> Inl (Error IndexError [Txt ''tuple index out of range''])
      | n # ds \<Rightarrow> Inr (int n))"
| "py_shape0 (XPandas p) = Inr (int (pd_nrows p))"
| "py_shape0 (XTorch d) = obj_shape0 d"
| "py_shape0 (XTf d) = obj_shape0 d"
| "py_shape0 (XObject d) = obj_shape0 d"

text \<open>\<open>X.iloc[idx]\<close> with a list of positions: every position must be in range.\<close>

definition py_iloc :: "pandas \<Rightarrow> int list \<Rightarrow> error + unit" where
  "py_iloc p idx =
     (if in_bounds (pd_nrows p) idx then Inr ()
      else Inl (Error IndexError [Txt ''positional indexers are out-of-bounds'']))"

text \<open>
  \<open>X[idx]\<close> with a list \<open>idx\<close>. A Python list cannot be indexed by a list; a
  numpy array takes the positions along its first axis.
\<close>

fun py_getitem :: "dataset \<Rightarrow> int list \<Rightarrow> error + unit" where
  "py_getitem XNone idx = Inl (Error TypeError [Txt ''NoneType object is not subscriptable''])"
| "py_getitem (XList xs) idx =
     Inl (Error TypeError [Txt ''list indices must be integers or slices, not list''])"
| "py_getitem (XArray a) idx =
     (case shape a of
        [] \<Rightarrow> Inl (Error IndexError [Txt ''too many indices for array''])
      | n # ds \<Rightarrow>
          if in_bounds n idx then Inr ()
          else Inl (Error IndexError [Txt ''index is out of bounds for axis 0'']))"
| "py_getitem (XPandas p) idx = pd_getitem p idx"
| "py_getitem (XTorch d) idx = obj_getitem d idx"
| "py_getitem (XTf d) idx = obj_getitem d idx"
| "py_getitem (XObject d) idx = obj_getitem d idx"

definition assert_nonempty_input :: "dataset \<Rightarrow> error + unit" where
  "assert_nonempty_input X =
     (if is_None X
      then Inl (Error ValueError [Txt ''Data features X cannot be None. Currently X is None.''])
      else Inr ())"

subsection \<open>\<open>assert_indexing_works\<close>\<close>

definition indexing_message :: message where
  "indexing_message =
     [Txt ''Data features X must support list-based indexing; i.e. one of these must work: \<newline>1)  X[index_list] where say index_list = [0,1,3,10], or \<newline>2)  X.iloc[index_list] if X is pandas DataFrame.'']"

text \<open>The index list that is tried: the given one, or the first and last position.\<close>

definition default_idx :: "int list option \<Rightarrow> int option \<Rightarrow> int list" where
  "default_idx idx length_X =
     (case idx of
        Some i \<Rightarrow> i
      | None \<Rightarrow> (let n = (case length_X of None \<Rightarrow> 2 | Some l \<Rightarrow> l) in [0, n - 1]))"

text \<open>
  The first attempt: \<open>X.iloc[idx]\<close> for a pandas container, inside
  \<open>try ... except Exception: pass\<close>. The result is the flag \<open>is_indexed\<close>.
\<close>

definition try_iloc :: "dataset \<Rightarrow> int list \<Rightarrow> error + bool" where
  "try_iloc X idx =
     (case X of
        XPandas p \<Rightarrow>
          (case py_iloc p idx of
             Inr u \<Rightarrow> Inr True
           | Inl e \<Rightarrow> if is_Exception (kind_of e) then Inr False else Inl e)
      | _ \<Rightarrow> Inr False)"

text \<open>
  Then a torch Dataset (\<open>Subset(X, idx)\<close> only stores its arguments), a tensorflow
  Dataset (accepted unchecked), and last \<open>X[idx]\<close>, whose \<open>Exception\<close> is replaced
  by the \<open>TypeError\<close>.
\<close>

definition assert_indexing_works ::
  "env \<Rightarrow> dataset \<Rightarrow> int list option \<Rightarrow> int option \<Rightarrow> error + unit" where
  "assert_indexing_works e X idx0 length_X =
     (let idx = default_idx idx0 length_X in
      case try_iloc X idx of
        Inl err \<Rightarrow> Inl err
      | Inr by_iloc \<Rightarrow>
          (let is_indexed = (by_iloc \<or> is_torch_dataset e X) \<or> is_tf_dataset e X in
           if is_indexed then Inr ()
           else (case py_getitem X idx of
                   Inr u \<Rightarrow> Inr ()
                 | Inl err \<Rightarrow>
                     if is_Exception (kind_of err)
                     then Inl (Error TypeError indexing_message)
                     else Inl err)))"

subsection \<open>Predicted probabilities\<close>

text \<open>
  \<open>pred_probs\<close>: absent, a numpy array, a numpy scalar, or any other object. The
  entries are finite floats, read as the reals they denote: the module only
  compares them with 0 and 1.
\<close>

datatype pred_probs = PNone | PArray "real ndarray" | PGeneric real | POther

fun is_PNone :: "pred_probs \<Rightarrow> bool" where
  "is_PNone PNone = True"
| "is_PNone _ = False"

text \<open>
  \<open>isinstance(pred_probs, (np.ndarray, np.generic))\<close>: the array, a scalar being a
  0-dimensional one.
\<close>

fun pp_array :: "pred_probs \<Rightarrow> real ndarray option" where
  "pp_array (PArray a) = Some a"
| "pp_array (PGeneric v) = Some \<lparr>shape = [], elems = [v]\<rparr>"
| "pp_array _ = None"

text \<open>
  \<open>len(pred_probs)\<close>: the first dimension of an array; a numpy scalar has no
  length.
\<close>

fun pp_len :: "pred_probs \<Rightarrow> error + nat" where
  "pp_len (PArray a) = np_len a"
| "pp_len (PGeneric v) =
     Inl (Error TypeError [Txt ''object of type numpy.float64 has no len()''])"
| "pp_len PNone = Inl (Error TypeError [Txt ''object of type NoneType has no len()''])"
| "pp_len POther = Inl (Error TypeError [Txt ''object has no len()''])"

text \<open>\<open>len(y)\<close> of the labels in whatever form they have at that point.\<close>

fun py_len_labels :: "labels \<Rightarrow> error + nat" where
  "py_len_labels (YList xs) = Inr (length xs)"
| "py_len_labels (YArray a) = np_len a"
| "py_len_labels (YGeneric v) = Inl (Error TypeError [Txt ''object of type numpy.int64 has no len()''])"
| "py_len_labels (YSeries xs) = Inr (length xs)"
| "py_len_labels (YDataFrame ncols rows) = Inr (length rows)"
| "py_len_labels (YOther r) = Inl (Error TypeError [Txt ''object has no len()''])"

text \<open>\<open>np.unique(y)\<close> of the labels (an array already where the module calls it).\<close>

definition np_unique_labels :: "labels \<Rightarrow> error + int list" where
  "np_unique_labels y = (case np_asarray y of Inl e \<Rightarrow> Inl e | Inr a \<Rightarrow> Inr (np_unique a))"

text \<open>
  \<open>(np.min(pred_probs) < 0) or (np.max(pred_probs) > 1)\<close>; the minimum of an
  array without elements raises.
\<close>

definition out_of_range :: "real ndarray \<Rightarrow> error + bool" where
  "out_of_range a =
     (if elems a = []
      then Inl (Error ValueError
        [Txt ''zero-size array to reduction operation minimum which has no identity''])
      else Inr (Min (set (elems a)) < 0 \<or> Max (set (elems a)) > 1))"

subsection \<open>\<open>assert_valid_inputs\<close>\<close>

datatype warning = UserWarning string

text \<open>
  Lines 39 to 41: unless \<open>multi_label\<close>, \<open>y\<close> becomes the array of
  \<open>labels_to_array\<close>, which \<open>assert_valid_class_labels\<close> checks.
\<close>

definition normalize_labels :: "labels \<Rightarrow> bool \<Rightarrow> bool \<Rightarrow> error + labels" where
  "normalize_labels y multi_label allow_missing_classes =
     (if \<not> multi_label
      then (case labels_to_array y of
              Inl e \<Rightarrow> Inl e
            | Inr a \<Rightarrow>
                (case assert_valid_class_labels a allow_missing_classes of
                   Inl e \<Rightarrow> Inl e
                 | Inr u \<Rightarrow> Inr (YArray a)))
      else Inr y)"

text \<open>
  Lines 56 to 68: \<open>len(X)\<close>, and when it raises anything, \<open>X.shape[0]\<close>; when
  that raises too, a \<open>TypeError\<close>.
\<close>

definition num_examples :: "dataset \<Rightarrow> error + int" where
  "num_examples X =
     (case py_len X of
        Inr n \<Rightarrow> Inr (int n)
      | Inl e1 \<Rightarrow>
          (case py_shape0 X of
             Inr n \<Rightarrow> Inr n
           | Inl e2 \<Rightarrow> Inl (Error TypeError
               [Txt ''Data features X must support either: len(X) or X.shape[0]''])))"

text \<open>Lines 55 to 75, the body of \<open>if not allow_empty_X\<close>.\<close>

definition check_X :: "env \<Rightarrow> dataset \<Rightarrow> labels \<Rightarrow> error + unit" where
  "check_X e X y =
     (case assert_nonempty_input X of
        Inl err \<Rightarrow> Inl err
      | Inr u \<Rightarrow>
          (case num_examples X of
             Inl err \<Rightarrow> Inl err
           | Inr n \<Rightarrow>
               (case py_len_labels y of
                  Inl err \<Rightarrow> Inl err
                | Inr m \<Rightarrow>
                    if n \<noteq> int m
                    then Inl (Error ValueError
                      [Txt ''X and labels must be same length, but X is length '', Num n,
                       Txt '' and labels is length '', Num (int m), Txt ''.''])
                    else assert_indexing_works e X None (Some n))))"

text \<open>
  Lines 78 to 97, the body of \<open>if pred_probs is not None\<close>. The result is the
  list of warnings issued.
\<close>

definition check_pred_probs ::
  "dataset \<Rightarrow> labels \<Rightarrow> pred_probs \<Rightarrow> bool \<Rightarrow> bool \<Rightarrow> error + warning list" where
  "check_pred_probs X y pred_probs multi_label allow_missing_classes =
     (case pp_array pred_probs of
        None \<Rightarrow> Inl (Error TypeError [Txt ''pred_probs must be a numpy array.''])
      | Some p \<Rightarrow>
     (case pp_len pred_probs of
        Inl err \<Rightarrow> Inl err
      | Inr n \<Rightarrow>
     (case py_len_labels y of
        Inl err \<Rightarrow> Inl err
      | Inr m \<Rightarrow>
     if n \<noteq> m
     then Inl (Error ValueError [Txt ''pred_probs and labels must have same length.''])
     else if length (shape p) \<noteq> 2
     then Inl (Error ValueError
       [Txt ''pred_probs array must have shape: num_examples x num_classes.''])
     else
     (case out_of_range p of
        Inl err \<Rightarrow> Inl err
      | Inr bad \<Rightarrow>
     if bad
     then Inl (Error ValueError [Txt ''Values in pred_probs must be between 0 and 1.''])
     else
     (let ws = (if \<not> is_None X
                then [UserWarning ''When X and pred_probs are both provided, former may be ignored.'']
                else []) in
      if \<not> allow_missing_classes \<and> \<not> multi_label
      then (case np_unique_labels y of
              Inl err \<Rightarrow> Inl err
            | Inr us \<Rightarrow>
                (let num_unique_labels = length us in
                 if num_unique_labels \<noteq> shape p ! 1
                 then Inl (Error ValueError
                   [Txt ''All classes in (0,1,2,...,K-1) must be present in labels with K = pred_probs.shape[1] = '',
                    Num (int (shape p ! 1)),
                    Txt '' in your case, but your labels only contain '',
                    Num (int num_unique_labels), Txt '' unique values.''])
                 else Inr ws))
      else Inr ws)))))"

text \<open>
  The whole check. \<open>allow_empty_X\<close> holds when \<open>pred_probs\<close> is given or \<open>X\<close> is a
  tensorflow Dataset (an import of tensorflow that fails is passed over).
\<close>

definition assert_valid_inputs ::
  "env \<Rightarrow> dataset \<Rightarrow> labels \<Rightarrow> pred_probs \<Rightarrow> bool \<Rightarrow> bool \<Rightarrow> error + warning list" where
  "assert_valid_inputs e X y pred_probs multi_label allow_missing_classes =
     (if \<not> accepted_labels_type y
      then Inl (Error TypeError [Txt ''labels should be a numpy array or pandas Series.''])
      else
      (case normalize_labels y multi_label allow_missing_classes of
         Inl err \<Rightarrow> Inl err
       | Inr y1 \<Rightarrow>
           (let allow_empty_X = True;
                allow_empty_X = (if is_PNone pred_probs then False else allow_empty_X);
                allow_empty_X = (if is_tf_dataset e X then True else allow_empty_X) in
            case (if \<not> allow_empty_X then check_X e X y1 else Inr ()) of
              Inl err \<Rightarrow> Inl err
            | Inr u \<Rightarrow>
                if \<not> is_PNone pred_probs
                then check_pred_probs X y1 pred_probs multi_label allow_missing_classes
                else Inr [])))"

subsection \<open>Outcomes and example inputs\<close>

text \<open>\<open>raises k r\<close>: the call with outcome \<open>r\<close> raised an exception of class \<open>k\<close>.\<close>

definition raises :: "exc_kind \<Rightarrow> error + 'a \<Rightarrow> bool" where
  "raises k r = (case r of Inl e \<Rightarrow> kind_of e = k | Inr v \<Rightarrow> False)"

text \<open>\<open>X\<close> is a pandas container and \<open>X.iloc[idx]\<close> returns.\<close>

definition iloc_works :: "dataset \<Rightarrow> int list \<Rightarrow> bool" where
  "iloc_works X idx = (case X of XPandas p \<Rightarrow> py_iloc p idx = Inr () | _ \<Rightarrow> False)"

text \<open>
  Example objects: one that has \<open>len\<close> and \<open>X[idx]\<close> only; one of length 2
  on which only \<open>X[[0, 1]]\<close> works; one on which \<open>X[idx]\<close> is interrupted
  (\<open>KeyboardInterrupt\<close>); a tensorflow Dataset of five batches; a scipy sparse matrix,
  whose \<open>len\<close> raises while \<open>shape[0]\<close> and \<open>X[idx]\<close> work; an object with
  none of the operations; a Series of two rows with the index labels 0 and 5, on
  which \<open>X[idx]\<close> selects by label; an installation with tensorflow only and
  one without torch and tensorflow.
\<close>

fun always_ok :: "int list \<Rightarrow> error + unit" where
  "always_ok idx = Inr ()"

fun never_ok :: "int list \<Rightarrow> error + unit" where
  "never_ok idx = Inl (Error TypeError [Txt ''object is not subscriptable''])"

definition getitem_labels :: "int list \<Rightarrow> int list \<Rightarrow> error + unit" where
  "getitem_labels ls idx =
     (if list_all (\<lambda>i. i \<in> set ls) idx then Inr ()
      else Inl (Error KeyError [Txt ''not in index'']))"

fun only_0_1 :: "int list \<Rightarrow> error + unit" where
  "only_0_1 idx =
     (if idx = [0, 1] then Inr ()
      else Inl (Error IndexError [Txt ''index out of range'']))"

fun interrupt :: "int list \<Rightarrow> error + unit" where
  "interrupt idx = Inl (Error NonException [Txt ''KeyboardInterrupt''])"

definition bracket_only :: obj where
  "bracket_only =
     \<lparr>obj_len = Inr 2,
      obj_shape0 = Inl (Error AttributeError [Txt ''object has no attribute shape'']),
      obj_getitem = always_ok\<rparr>"

definition pair_only :: obj where
  "pair_only =
     \<lparr>obj_len = Inr 2,
      obj_shape0 = Inl (Error AttributeError [Txt ''object has no attribute shape'']),
      obj_getitem = only_0_1\<rparr>"

definition interrupted :: obj where
  "interrupted =
     \<lparr>obj_len = Inr 2,
      obj_shape0 = Inl (Error AttributeError [Txt ''object has no attribute shape'']),
      obj_getitem = interrupt\<rparr>"

definition five_batches :: obj where
  "five_batches =
     \<lparr>obj_len = Inr 5,
      obj_shape0 = Inl (Error AttributeError [Txt ''object has no attribute shape'']),
      obj_getitem = never_ok\<rparr>"

definition sparse_matrix :: obj where
  "sparse_matrix =
     \<lparr>obj_len = Inl (Error TypeError [Txt ''sparse array length is ambiguous; use getnnz() or shape[0]'']),
      obj_shape0 = Inr 2,
      obj_getitem = always_ok\<rparr>"

definition unsized :: obj where
  "unsized =
     \<lparr>obj_len = Inl (Error TypeError [Txt ''object has no len()'']),
      obj_shape0 = Inl (Error AttributeError [Txt ''object has no attribute shape'']),
      obj_getitem = never_ok\<rparr>"

definition series_0_5 :: pandas where
  "series_0_5 = \<lparr>pd_nrows = 2, pd_getitem = getitem_labels [0, 5]\<rparr>"


definition no_libraries :: env where
  "no_libraries = \<lparr>torch_installed = False, tensorflow_installed = False\<rparr>"

section \<open>Properties\<close>

subsection \<open>Auxiliary facts about \<open>np.unique\<close> and \<open>np.arange\<close>\<close>

lemma zip_differs_iff:
  "length xs = length ys \<Longrightarrow> list_ex (\<lambda>(u, k). u \<noteq> k) (zip xs ys) \<longleftrightarrow> xs \<noteq> ys"
  by (induction xs ys rule: list_induct2) auto

lemma np_arange_props:
  "sorted (np_arange n)" "distinct (np_arange n)" "set (np_arange n) = {0..<int n}"
  "length (np_arange n) = n"
  unfolding np_arange_def
  by (simp_all add: sorted_map distinct_map inj_on_def image_int_atLeastLessThan
      sorted_wrt_iff_nth_less)

lemma np_unique_props:
  "sorted (np_unique y)" "distinct (np_unique y)" "set (np_unique y) = set (elems y)"
  "length (np_unique y) = card (set (elems y))"
  unfolding np_unique_def by (simp_all add: length_remdups_card_conv)

lemma contiguous_iff:
  "np_unique y = np_arange (length (np_unique y)) \<longleftrightarrow> (\<exists>K. set (elems y) = {0..<int K})"
proof
  assume "np_unique y = np_arange (length (np_unique y))"
  then have "set (np_unique y) = {0..<int (length (np_unique y))}"
    using np_arange_props(3) by metis
  then show "\<exists>K. set (elems y) = {0..<int K}"
    using np_unique_props(3) by metis
next
  assume "\<exists>K. set (elems y) = {0..<int K}"
  then obtain K where K: "set (elems y) = {0..<int K}" by blast
  have "card (set (elems y)) = K" using K by simp
  then have len: "length (np_unique y) = K" by (simp add: np_unique_props(4))
  show "np_unique y = np_arange (length (np_unique y))"
    unfolding len
    by (rule sorted_distinct_set_unique) (simp_all add: np_unique_props np_arange_props K)
qed

lemma unique_differs_iff:
  "list_ex (\<lambda>(u, k). u \<noteq> k) (zip (np_unique y) (np_arange (length (np_unique y))))
     \<longleftrightarrow> \<not> (\<exists>K. set (elems y) = {0..<int K})"
  using zip_differs_iff [of "np_unique y" "np_arange (length (np_unique y))"]
    contiguous_iff [of y] np_arange_props(4) by simp

lemma no_zero_not_contiguous:
  "x \<in> A \<Longrightarrow> (0::int) \<notin> A \<Longrightarrow> \<not> (\<exists>K. A = {0..<int K})"
proof
  assume x: "x \<in> A" and z: "0 \<notin> A" and "\<exists>K. A = {0..<int K}"
  then obtain K where K: "A = {0..<int K}" by blast
  have "x \<in> {0..<int K}" using x unfolding K .
  then have "(0::int) \<in> {0..<int K}" by simp
  then show False using z unfolding K by blast
qed

subsection \<open>Class labels\<close>

text \<open>
  C3. A one-dimensional label array whose distinct values are exactly
  \<open>0, ..., K-1\<close> for some \<open>K \<ge> 2\<close> (any order, repeats allowed) passes
  \<open>assert_valid_class_labels\<close> with \<open>allow_missing_classes=False\<close>.
\<close>

theorem assert_valid_class_labels_accepts_contiguous:
  "ndim y = 1 \<Longrightarrow> 2 \<le> K \<Longrightarrow> set (elems y) = {0..<int K} \<Longrightarrow>
   assert_valid_class_labels y False = Inr ()"
proof -
  assume a: "ndim y = 1" "2 \<le> K" "set (elems y) = {0..<int K}"
  have "card (set (elems y)) = K" using a(3) by simp
  then have len: "length (np_unique y) = K" by (simp add: np_unique_props(4))
  have "\<not> list_ex (\<lambda>(u, k). u \<noteq> k) (zip (np_unique y) (np_arange (length (np_unique y))))"
    using a(3) unique_differs_iff [of y] by blast
  then show ?thesis using a len by (simp add: assert_valid_class_labels_def Let_def)
qed

theorem assert_valid_class_labels_accepts_contiguous_witness:
  "ndim \<lparr>shape = [4], elems = [0, 0, 1, 2::int]\<rparr> = 1 \<and> (2::nat) \<le> 3
   \<and> set (elems \<lparr>shape = [4], elems = [0, 0, 1, 2::int]\<rparr>) = {0..<int 3}
   \<and> assert_valid_class_labels \<lparr>shape = [4], elems = [0, 0, 1, 2]\<rparr> False = Inr ()"
proof -
  have s: "set (elems \<lparr>shape = [4::nat], elems = [0, 0, 1, 2::int]\<rparr>) = {0..<int 3}" by auto
  have n: "ndim \<lparr>shape = [4], elems = [0, 0, 1, 2::int]\<rparr> = 1" by (simp add: ndim_def)
  have k: "(2::nat) \<le> 3" by simp
  show ?thesis
    using assert_valid_class_labels_accepts_contiguous [OF n k s] n k s by blast
qed

text \<open>
  C4. With \<open>allow_missing_classes=False\<close>, a one-dimensional label array with
  fewer than two distinct values is rejected with a \<open>ValueError\<close>; one with at
  least two distinct values that are not \<open>0, ..., K-1\<close> for any \<open>K\<close> is rejected
  with a \<open>TypeError\<close> whose message prints the distinct values found. With
  \<open>allow_missing_classes=True\<close> every one-dimensional array is accepted.
\<close>

theorem assert_valid_class_labels_rejects:
  "ndim y = 1 \<Longrightarrow>
   (card (set (elems y)) < 2 \<longrightarrow>
      assert_valid_class_labels y False =
        Inl (Error ValueError [Txt ''Labels must contain at least 2 classes.'']))
   \<and> (2 \<le> card (set (elems y)) \<and> \<not> (\<exists>K. set (elems y) = {0..<int K}) \<longrightarrow>
      assert_valid_class_labels y False =
        Inl (Error TypeError
          [Txt ''cleanlab requires zero-indexed integer labels (0,1,2,..,K-1), but in your case: np.unique(labels) = '',
           Arr (np_unique y),
           Txt ''. Every class in (0,1,2,..,K-1) must be present in labels as well.'']))
   \<and> assert_valid_class_labels y True = Inr ()"
  using unique_differs_iff [of y]
  by (simp add: assert_valid_class_labels_def Let_def np_unique_props(4))

theorem assert_valid_class_labels_rejects_witness:
  "ndim \<lparr>shape = [1], elems = [0::int]\<rparr> = 1
   \<and> card (set (elems \<lparr>shape = [1::nat], elems = [0::int]\<rparr>)) < 2
   \<and> assert_valid_class_labels \<lparr>shape = [1], elems = [0]\<rparr> False =
        Inl (Error ValueError [Txt ''Labels must contain at least 2 classes.''])
   \<and> assert_valid_class_labels \<lparr>shape = [1], elems = [0]\<rparr> True = Inr ()
   \<and> ndim \<lparr>shape = [3], elems = [1, 2, 3::int]\<rparr> = 1
   \<and> 2 \<le> card (set (elems \<lparr>shape = [3::nat], elems = [1, 2, 3::int]\<rparr>))
   \<and> \<not> (\<exists>K. set (elems \<lparr>shape = [3::nat], elems = [1, 2, 3::int]\<rparr>) = {0..<int K})
   \<and> assert_valid_class_labels \<lparr>shape = [3], elems = [1, 2, 3]\<rparr> False =
        Inl (Error TypeError
          [Txt ''cleanlab requires zero-indexed integer labels (0,1,2,..,K-1), but in your case: np.unique(labels) = '',
           Arr [1, 2, 3],
           Txt ''. Every class in (0,1,2,..,K-1) must be present in labels as well.''])
   \<and> assert_valid_class_labels \<lparr>shape = [3], elems = [1, 2, 3]\<rparr> True = Inr ()"
proof -
  let ?a = "\<lparr>shape = [1::nat], elems = [0::int]\<rparr>"
  let ?b = "\<lparr>shape = [3::nat], elems = [1, 2, 3::int]\<rparr>"
  have na: "ndim ?a = 1" and nb: "ndim ?b = 1" by (simp_all add: ndim_def)
  have ca: "card (set (elems ?a)) < 2" by simp
  have cb: "2 \<le> card (set (elems ?b))" by simp
  have gb: "\<not> (\<exists>K. set (elems ?b) = {0..<int K})" using no_zero_not_contiguous [of 1 "set [1, 2, 3]"] by simp
  have ub: "np_unique ?b = [1, 2, 3]" by (simp add: np_unique_def)
  show ?thesis using assert_valid_class_labels_rejects [OF na] assert_valid_class_labels_rejects [OF nb] na nb ca cb gb ub by simp
qed


text \<open>
  C5, as the code has it. A one-dimensional label array whose distinct values are
  not \<open>0, ..., K-1\<close> for any \<open>K\<close> is rejected: with a \<open>TypeError\<close> when it has
  at least two distinct values, with a \<open>ValueError\<close> when it has fewer.
\<close>

theorem noncontiguous_labels_error_kind:
  "ndim y = 1 \<Longrightarrow> \<not> (\<exists>K. set (elems y) = {0..<int K}) \<Longrightarrow>
   raises (if card (set (elems y)) < 2 then ValueError else TypeError)
     (assert_valid_class_labels y False)"
  using unique_differs_iff [of y]
  by (simp add: raises_def assert_valid_class_labels_def Let_def np_unique_props(4))

theorem noncontiguous_labels_error_kind_witness:
  "ndim \<lparr>shape = [3], elems = [1, 2, 3::int]\<rparr> = 1
   \<and> \<not> (\<exists>K. set (elems \<lparr>shape = [3::nat], elems = [1, 2, 3::int]\<rparr>) = {0..<int K})
   \<and> raises TypeError (assert_valid_class_labels \<lparr>shape = [3], elems = [1, 2, 3]\<rparr> False)
   \<and> ndim \<lparr>shape = [1], elems = [5::int]\<rparr> = 1
   \<and> \<not> (\<exists>K. set (elems \<lparr>shape = [1::nat], elems = [5::int]\<rparr>) = {0..<int K})
   \<and> raises ValueError (assert_valid_class_labels \<lparr>shape = [1], elems = [5]\<rparr> False)"
proof -
  let ?a = "\<lparr>shape = [1::nat], elems = [5::int]\<rparr>"
  let ?b = "\<lparr>shape = [3::nat], elems = [1, 2, 3::int]\<rparr>"
  have na: "ndim ?a = 1" and nb: "ndim ?b = 1" by (simp_all add: ndim_def)
  have ga: "\<not> (\<exists>K. set (elems ?a) = {0..<int K})"
    using no_zero_not_contiguous [of 5 "set [5]"] by simp
  have gb: "\<not> (\<exists>K. set (elems ?b) = {0..<int K})"
    using no_zero_not_contiguous [of 1 "set [1, 2, 3]"] by simp
  show ?thesis using noncontiguous_labels_error_kind [OF na ga] noncontiguous_labels_error_kind [OF nb gb] na nb ga gb by simp
qed

text \<open>
  C5, as the claim has it (a \<open>ValueError\<close>), fails: the labels \<open>[1, 2, 3]\<close> are
  rejected with a \<open>TypeError\<close>.
\<close>

theorem noncontiguous_labels_not_ValueError:
  "raises TypeError (assert_valid_class_labels \<lparr>shape = [3], elems = [1, 2, 3]\<rparr> False)
   \<and> \<not> raises ValueError (assert_valid_class_labels \<lparr>shape = [3], elems = [1, 2, 3]\<rparr> False)"
  by (simp add: raises_def assert_valid_class_labels_def ndim_def np_unique_def np_arange_def)

subsection \<open>Indexing\<close>

lemma try_iloc_eq: "try_iloc X idx = Inr (iloc_works X idx)"
  by (cases X) (simp_all add: try_iloc_def iloc_works_def py_iloc_def)

text \<open>
  C6. \<open>assert_indexing_works\<close> returns normally on every \<open>X\<close> for which
  \<open>X[[0, length_X - 1]]\<close> works (\<open>X[[0, 1]]\<close> when no length is given,
  \<open>X[idx]\<close> when an index list is given), whatever else \<open>X\<close> supports. When, for
  that index list, \<open>X.iloc\<close> does not apply or fails, \<open>X\<close> is neither a torch
  nor a tensorflow Dataset and \<open>X[...]\<close> raises an \<open>Exception\<close>, it raises a
  \<open>TypeError\<close> whose message names \<open>X[index_list]\<close> and \<open>X.iloc[index_list]\<close>.
\<close>

theorem assert_indexing_works_bracket:
  "(py_getitem X [0, l - 1] = Inr () \<longrightarrow> assert_indexing_works e X None (Some l) = Inr ())
   \<and> (py_getitem X [0, 1] = Inr () \<longrightarrow> assert_indexing_works e X None None = Inr ())
   \<and> (py_getitem X idx = Inr () \<longrightarrow> assert_indexing_works e X (Some idx) length_X = Inr ())
   \<and> (\<not> iloc_works X [0, l - 1] \<and> \<not> is_torch_dataset e X \<and> \<not> is_tf_dataset e X
        \<and> py_getitem X [0, l - 1] = Inl err \<and> is_Exception (kind_of err) \<longrightarrow>
      assert_indexing_works e X None (Some l) =
        Inl (Error TypeError
          [Txt ''Data features X must support list-based indexing; i.e. one of these must work: \<newline>1)  X[index_list] where say index_list = [0,1,3,10], or \<newline>2)  X.iloc[index_list] if X is pandas DataFrame.'']))
   \<and> (\<not> iloc_works X idx \<and> \<not> is_torch_dataset e X \<and> \<not> is_tf_dataset e X
        \<and> py_getitem X idx = Inl err \<and> is_Exception (kind_of err) \<longrightarrow>
      assert_indexing_works e X (Some idx) length_X =
        Inl (Error TypeError
          [Txt ''Data features X must support list-based indexing; i.e. one of these must work: \<newline>1)  X[index_list] where say index_list = [0,1,3,10], or \<newline>2)  X.iloc[index_list] if X is pandas DataFrame.'']))"
  by (simp add: assert_indexing_works_def try_iloc_eq default_idx_def Let_def indexing_message_def)

theorem assert_indexing_works_bracket_witness:
  "py_getitem (XObject pair_only) [0, 2 - 1] = Inr ()
   \<and> assert_indexing_works no_libraries (XObject pair_only) None (Some 2) = Inr ()
   \<and> py_getitem (XObject pair_only) [0, 1] = Inr ()
   \<and> assert_indexing_works no_libraries (XObject pair_only) None None = Inr ()
   \<and> assert_indexing_works no_libraries (XObject pair_only) (Some [0, 1]) (Some 7) = Inr ()
   \<and> \<not> iloc_works (XObject pair_only) [0, 3 - 1]
   \<and> \<not> is_torch_dataset no_libraries (XObject pair_only)
   \<and> \<not> is_tf_dataset no_libraries (XObject pair_only)
   \<and> py_getitem (XObject pair_only) [0, 3 - 1] = Inl (Error IndexError [Txt ''index out of range''])
   \<and> is_Exception (kind_of (Error IndexError [Txt ''index out of range'']))
   \<and> assert_indexing_works no_libraries (XObject pair_only) None (Some 3) =
        Inl (Error TypeError
          [Txt ''Data features X must support list-based indexing; i.e. one of these must work: \<newline>1)  X[index_list] where say index_list = [0,1,3,10], or \<newline>2)  X.iloc[index_list] if X is pandas DataFrame.''])
   \<and> \<not> iloc_works (XArray \<lparr>shape = [1], elems = [4]\<rparr>) [0, 1]
   \<and> py_getitem (XArray \<lparr>shape = [1], elems = [4]\<rparr>) [0, 1] =
        Inl (Error IndexError [Txt ''index is out of bounds for axis 0''])
   \<and> assert_indexing_works no_libraries (XArray \<lparr>shape = [1], elems = [4]\<rparr>) (Some [0, 1]) None =
        Inl (Error TypeError
          [Txt ''Data features X must support list-based indexing; i.e. one of these must work: \<newline>1)  X[index_list] where say index_list = [0,1,3,10], or \<newline>2)  X.iloc[index_list] if X is pandas DataFrame.''])"
proof -
  let ?p = "XObject pair_only"
  let ?a = "XArray \<lparr>shape = [1], elems = [4]\<rparr>"
  let ?e = "Error IndexError [Txt ''index out of range'']"
  let ?f = "Error IndexError [Txt ''index is out of bounds for axis 0'']"
  have g1: "py_getitem ?p [0, 2 - 1] = Inr ()" "py_getitem ?p [0, 1] = Inr ()"
    by (simp_all add: pair_only_def)
  have g2: "py_getitem ?p [0, 3 - 1] = Inl ?e" by (simp add: pair_only_def)
  have g3: "py_getitem ?a [0, 1] = Inl ?f" by (simp add: in_bounds_def)
  have i: "\<not> iloc_works ?p [0, 3 - 1]" "\<not> iloc_works ?a [0, 1]"
    by (simp_all add: iloc_works_def)
  have t: "\<not> is_torch_dataset no_libraries ?p" "\<not> is_tf_dataset no_libraries ?p"
    "\<not> is_torch_dataset no_libraries ?a" "\<not> is_tf_dataset no_libraries ?a"
    by simp_all
  have r1: "assert_indexing_works no_libraries ?p None (Some 2) = Inr ()"
    using assert_indexing_works_bracket [where X = ?p and l = 2 and e = no_libraries] g1 by blast
  have r2: "assert_indexing_works no_libraries ?p None None = Inr ()"
    using assert_indexing_works_bracket [where X = ?p and e = no_libraries] g1 by blast
  have r3: "assert_indexing_works no_libraries ?p (Some [0, 1]) (Some 7) = Inr ()"
    using assert_indexing_works_bracket [where X = ?p and e = no_libraries and idx = "[0, 1]" and length_X = "Some 7"] g1
    by blast
  have r4: "assert_indexing_works no_libraries ?p None (Some 3) =
        Inl (Error TypeError
          [Txt ''Data features X must support list-based indexing; i.e. one of these must work: \<newline>1)  X[index_list] where say index_list = [0,1,3,10], or \<newline>2)  X.iloc[index_list] if X is pandas DataFrame.''])"
    using assert_indexing_works_bracket [where X = ?p and e = no_libraries and l = 3 and err = ?e] g2 i t by simp
  have r5: "assert_indexing_works no_libraries ?a (Some [0, 1]) None =
        Inl (Error TypeError
          [Txt ''Data features X must support list-based indexing; i.e. one of these must work: \<newline>1)  X[index_list] where say index_list = [0,1,3,10], or \<newline>2)  X.iloc[index_list] if X is pandas DataFrame.''])"
    using assert_indexing_works_bracket [where X = ?a and e = no_libraries and idx = "[0, 1]" and err = ?f and length_X = None]
      g3 i t by simp
  show ?thesis using g1 g2 g3 i t r1 r2 r3 r4 r5 by simp
qed

subsection \<open>\<open>labels_to_array\<close>\<close>

text \<open>
  C2, at the nested list \<open>[[1, 2], [3, 4]]\<close>: \<open>labels_to_array\<close> returns the array
  of \<open>np.asarray\<close> as it is, of shape \<open>(2, 2)\<close>, which is not one-dimensional.
\<close>

theorem labels_to_array_nested_list:
  "labels_to_array (YList [PyList [PyInt 1, PyInt 2], PyList [PyInt 3, PyInt 4]])
     = Inr \<lparr>shape = [2, 2], elems = [1, 2, 3, 4]\<rparr>
   \<and> ndim \<lparr>shape = [2, 2], elems = [1, 2, 3, 4::int]\<rparr> = 2"
  by (simp add: np_asarray_list_def ndim_def)

subsection \<open>The whole check\<close>

lemma assert_valid_inputs_checked:
  "is_PNone pred_probs \<Longrightarrow> \<not> is_tf_dataset e X \<Longrightarrow> accepted_labels_type y \<Longrightarrow>
   normalize_labels y multi_label allow_missing_classes = Inr y1 \<Longrightarrow>
   assert_valid_inputs e X y pred_probs multi_label allow_missing_classes =
     (case check_X e X y1 of Inl err \<Rightarrow> Inl err | Inr u \<Rightarrow> Inr [])"
  by (simp add: assert_valid_inputs_def Let_def split: sum.splits)

text \<open>
  C1. With \<open>X = [[1, 2], [3, 4]]\<close>, \<open>y = [0, 1]\<close> and
  \<open>pred_probs = [[0.9, 0.1], [0.2, 0.8]]\<close>, \<open>assert_valid_inputs\<close> returns
  normally, whatever libraries are installed; the one warning says that \<open>X\<close>
  may be ignored.
\<close>

theorem assert_valid_inputs_example_returns:
  "assert_valid_inputs e
     (XList [PyList [PyInt 1, PyInt 2], PyList [PyInt 3, PyInt 4]])
     (YList [PyInt 0, PyInt 1])
     (PArray \<lparr>shape = [2, 2], elems = [9/10, 1/10, 2/10, 8/10]\<rparr>)
     False False
   = Inr [UserWarning ''When X and pred_probs are both provided, former may be ignored.'']"
  by (simp add: assert_valid_inputs_def normalize_labels_def np_asarray_list_def
      assert_valid_class_labels_def ndim_def np_unique_def np_arange_def
      check_pred_probs_def np_len_def out_of_range_def np_unique_labels_def Let_def)

text \<open>
  C7. With \<open>X = None\<close>, \<open>y = [0, 1]\<close> and
  \<open>pred_probs = [[0.5, 0.5], [0.5, 0.5]]\<close>, \<open>assert_valid_inputs\<close> returns
  normally. Whenever \<open>pred_probs\<close> is given, no check of \<open>X\<close> runs: the outcome
  for any \<open>X\<close> is the outcome for \<open>X = None\<close>, up to the warning that \<open>X\<close> may be
  ignored.
\<close>

theorem pred_probs_skips_X_checks:
  "assert_valid_inputs e XNone (YList [PyInt 0, PyInt 1])
      (PArray \<lparr>shape = [2, 2], elems = [1/2, 1/2, 1/2, 1/2]\<rparr>) False False = Inr []
   \<and> (\<not> is_PNone pred_probs \<longrightarrow>
        assert_valid_inputs e X y pred_probs multi_label allow_missing_classes =
          (case assert_valid_inputs e XNone y pred_probs multi_label allow_missing_classes of
             Inl err \<Rightarrow> Inl err
           | Inr ws \<Rightarrow>
               Inr (if is_None X then ws
                    else UserWarning ''When X and pred_probs are both provided, former may be ignored.'' # ws)))"
proof (rule conjI)
  show "assert_valid_inputs e XNone (YList [PyInt 0, PyInt 1])
      (PArray \<lparr>shape = [2, 2], elems = [1/2, 1/2, 1/2, 1/2]\<rparr>) False False = Inr []"
    by (simp add: assert_valid_inputs_def normalize_labels_def np_asarray_list_def
      assert_valid_class_labels_def ndim_def np_unique_def np_arange_def
      check_pred_probs_def np_len_def out_of_range_def np_unique_labels_def Let_def)
next
  have cp: "check_pred_probs X y1 pred_probs multi_label allow_missing_classes =
      (case check_pred_probs XNone y1 pred_probs multi_label allow_missing_classes of
             Inl err \<Rightarrow> Inl err
           | Inr ws \<Rightarrow>
               Inr (if is_None X then ws
                    else UserWarning ''When X and pred_probs are both provided, former may be ignored.'' # ws))" for y1
    by (simp add: check_pred_probs_def Let_def split: option.splits sum.splits)
  show "\<not> is_PNone pred_probs \<longrightarrow>
        assert_valid_inputs e X y pred_probs multi_label allow_missing_classes =
          (case assert_valid_inputs e XNone y pred_probs multi_label allow_missing_classes of
             Inl err \<Rightarrow> Inl err
           | Inr ws \<Rightarrow>
               Inr (if is_None X then ws
                    else UserWarning ''When X and pred_probs are both provided, former may be ignored.'' # ws))"
    by (simp add: assert_valid_inputs_def Let_def cp split: sum.splits)
qed

theorem pred_probs_skips_X_checks_witness:
  "\<not> is_PNone (PArray \<lparr>shape = [2, 2], elems = [1/2, 1/2, 1/2, 1/2]\<rparr>)
   \<and> assert_valid_inputs no_libraries XNone (YList [PyInt 0, PyInt 1])
        (PArray \<lparr>shape = [2, 2], elems = [1/2, 1/2, 1/2, 1/2]\<rparr>) False False = Inr []
   \<and> assert_valid_inputs no_libraries (XObject unsized) (YList [PyInt 0, PyInt 1])
        (PArray \<lparr>shape = [2, 2], elems = [1/2, 1/2, 1/2, 1/2]\<rparr>) False False =
      Inr [UserWarning ''When X and pred_probs are both provided, former may be ignored.'']"
  using pred_probs_skips_X_checks [of no_libraries "PArray \<lparr>shape = [2, 2], elems = [1/2, 1/2, 1/2, 1/2]\<rparr>"
      "XObject unsized" "YList [PyInt 0, PyInt 1]" False False]
  by simp




text \<open>
  C10. For a plain Python list \<open>X\<close> and labels that pass the class-label checks
  and have the length of \<open>X\<close>, \<open>assert_valid_inputs(X, y)\<close> raises the
  \<open>TypeError\<close> of the indexing check: a list cannot be indexed by a list.
\<close>

theorem plain_list_X_rejected:
  "accepted_labels_type y \<Longrightarrow> labels_to_array y = Inr a \<Longrightarrow>
   assert_valid_class_labels a False = Inr () \<Longrightarrow> np_len a = Inr (length xs) \<Longrightarrow>
   assert_valid_inputs e (XList xs) y PNone False False =
     Inl (Error TypeError
          [Txt ''Data features X must support list-based indexing; i.e. one of these must work: \<newline>1)  X[index_list] where say index_list = [0,1,3,10], or \<newline>2)  X.iloc[index_list] if X is pandas DataFrame.''])"
proof -
  assume h: "accepted_labels_type y" "labels_to_array y = Inr a"
    "assert_valid_class_labels a False = Inr ()" "np_len a = Inr (length xs)"
  have n: "normalize_labels y False False = Inr (YArray a)"
    using h by (simp add: normalize_labels_def)
  have i: "assert_indexing_works e (XList xs) None (Some (int (length xs))) =
      Inl (Error TypeError indexing_message)"
    by (simp add: assert_indexing_works_def try_iloc_def)
  have "check_X e (XList xs) (YArray a) = Inl (Error TypeError indexing_message)"
    using h(4) i by (simp add: check_X_def assert_nonempty_input_def num_examples_def)
  then show ?thesis
    using assert_valid_inputs_checked [of PNone e "XList xs" y False False "YArray a"] h(1) n
    by (simp add: indexing_message_def)
qed

theorem plain_list_X_rejected_witness:
  "accepted_labels_type (YList [PyInt 0, PyInt 1])
   \<and> labels_to_array (YList [PyInt 0, PyInt 1]) = Inr \<lparr>shape = [2], elems = [0, 1]\<rparr>
   \<and> assert_valid_class_labels \<lparr>shape = [2], elems = [0, 1]\<rparr> False = Inr ()
   \<and> np_len \<lparr>shape = [2], elems = [0, 1::int]\<rparr> = Inr (length [PyList [PyInt 1, PyInt 2], PyList [PyInt 3, PyInt 4]])
   \<and> assert_valid_inputs no_libraries (XList [PyList [PyInt 1, PyInt 2], PyList [PyInt 3, PyInt 4]])
        (YList [PyInt 0, PyInt 1]) PNone False False =
     Inl (Error TypeError
          [Txt ''Data features X must support list-based indexing; i.e. one of these must work: \<newline>1)  X[index_list] where say index_list = [0,1,3,10], or \<newline>2)  X.iloc[index_list] if X is pandas DataFrame.''])"
proof -
  have a: "accepted_labels_type (YList [PyInt 0, PyInt 1])" by simp
  have b: "labels_to_array (YList [PyInt 0, PyInt 1]) = Inr \<lparr>shape = [2], elems = [0, 1]\<rparr>"
    by (simp add: np_asarray_list_def)
  have c: "assert_valid_class_labels \<lparr>shape = [2], elems = [0, 1]\<rparr> False = Inr ()"
    by (simp add: assert_valid_class_labels_def ndim_def np_unique_def np_arange_def)
  have d: "np_len \<lparr>shape = [2], elems = [0, 1::int]\<rparr> = Inr (length [PyList [PyInt 1, PyInt 2], PyList [PyInt 3, PyInt 4]])"
    by (simp add: np_len_def)
  show ?thesis using plain_list_X_rejected [OF a b c d] a b c d by blast
qed

subsection \<open>Exceptions that are caught\<close>

lemma assert_valid_inputs_given:
  "pp_array pred_probs = Some probs \<Longrightarrow> accepted_labels_type y \<Longrightarrow>
   normalize_labels y multi_label allow_missing_classes = Inr yn \<Longrightarrow>
   assert_valid_inputs e X y pred_probs multi_label allow_missing_classes =
     check_pred_probs X yn pred_probs multi_label allow_missing_classes"
  by (cases pred_probs) (simp_all add: assert_valid_inputs_def Let_def)

lemma probes_pass_indexing:
  "\<not> torch_installed e \<and> \<not> tensorflow_installed e \<longrightarrow>
    assert_indexing_works e X (Some idx) length_X =
      (if iloc_works X idx then Inr ()
       else (case py_getitem X idx of
               Inr u \<Rightarrow> Inr ()
             | Inl err \<Rightarrow>
                 if is_Exception (kind_of err) then Inl (Error TypeError indexing_message)
                 else Inl err))"
  by (cases X) (simp_all add: assert_indexing_works_def try_iloc_eq default_idx_def)

lemma probe_pass_inputs:
  "\<not> tensorflow_installed e \<and> is_PNone pred_probs \<and> accepted_labels_type y
      \<and> normalize_labels y multi_label allow_missing_classes = Inr yn \<longrightarrow>
    assert_valid_inputs e X y pred_probs multi_label allow_missing_classes =
      (case check_X e X yn of Inl err \<Rightarrow> Inl err | Inr u \<Rightarrow> Inr [])"
proof
  assume h: "\<not> tensorflow_installed e \<and> is_PNone pred_probs \<and> accepted_labels_type y
      \<and> normalize_labels y multi_label allow_missing_classes = Inr yn"
  then have "\<not> is_tf_dataset e X" by (cases X) simp_all
  then show "assert_valid_inputs e X y pred_probs multi_label allow_missing_classes =
      (case check_X e X yn of Inl err \<Rightarrow> Inl err | Inr u \<Rightarrow> Inr [])"
    using h assert_valid_inputs_checked by blast
qed

lemma len_X_caught:
  "is_PNone pred_probs \<and> \<not> is_tf_dataset e X \<and> accepted_labels_type y
      \<and> normalize_labels y multi_label allow_missing_classes = Inr yn
      \<and> \<not> is_None X \<and> py_len X = Inl err_len \<and> py_shape0 X = Inr n \<longrightarrow>
    assert_valid_inputs e X y pred_probs multi_label allow_missing_classes =
      (case py_len_labels yn of
         Inl err \<Rightarrow> Inl err
       | Inr m \<Rightarrow>
           if n \<noteq> int m
           then Inl (Error ValueError
                  [Txt ''X and labels must be same length, but X is length '', Num n,
                   Txt '' and labels is length '', Num (int m), Txt ''.''])
           else (case assert_indexing_works e X None (Some n) of
                   Inl err \<Rightarrow> Inl err
                 | Inr u \<Rightarrow> Inr []))"
proof
  assume h: "is_PNone pred_probs \<and> \<not> is_tf_dataset e X \<and> accepted_labels_type y
      \<and> normalize_labels y multi_label allow_missing_classes = Inr yn
      \<and> \<not> is_None X \<and> py_len X = Inl err_len \<and> py_shape0 X = Inr n"
  then have "assert_valid_inputs e X y pred_probs multi_label allow_missing_classes =
     (case check_X e X yn of Inl err \<Rightarrow> Inl err | Inr u \<Rightarrow> Inr [])"
    using assert_valid_inputs_checked by blast
  then show "assert_valid_inputs e X y pred_probs multi_label allow_missing_classes =
      (case py_len_labels yn of
         Inl err \<Rightarrow> Inl err
       | Inr m \<Rightarrow>
           if n \<noteq> int m
           then Inl (Error ValueError
                  [Txt ''X and labels must be same length, but X is length '', Num n,
                   Txt '' and labels is length '', Num (int m), Txt ''.''])
           else (case assert_indexing_works e X None (Some n) of
                   Inl err \<Rightarrow> Inl err
                 | Inr u \<Rightarrow> Inr []))"
    using h by (simp add: check_X_def assert_nonempty_input_def num_examples_def split: sum.splits)
qed

lemma len_and_shape_caught:
  "is_PNone pred_probs \<and> \<not> is_tf_dataset e X \<and> accepted_labels_type y
      \<and> normalize_labels y multi_label allow_missing_classes = Inr yn
      \<and> \<not> is_None X \<and> py_len X = Inl err_len \<and> py_shape0 X = Inl err_shape \<longrightarrow>
    assert_valid_inputs e X y pred_probs multi_label allow_missing_classes =
      Inl (Error TypeError [Txt ''Data features X must support either: len(X) or X.shape[0]''])"
proof
  assume h: "is_PNone pred_probs \<and> \<not> is_tf_dataset e X \<and> accepted_labels_type y
      \<and> normalize_labels y multi_label allow_missing_classes = Inr yn
      \<and> \<not> is_None X \<and> py_len X = Inl err_len \<and> py_shape0 X = Inl err_shape"
  then have "assert_valid_inputs e X y pred_probs multi_label allow_missing_classes =
     (case check_X e X yn of Inl err \<Rightarrow> Inl err | Inr u \<Rightarrow> Inr [])"
    using assert_valid_inputs_checked by blast
  then show "assert_valid_inputs e X y pred_probs multi_label allow_missing_classes =
      Inl (Error TypeError [Txt ''Data features X must support either: len(X) or X.shape[0]''])"
    using h by (simp add: check_X_def assert_nonempty_input_def num_examples_def)
qed

lemma iloc_caught:
  "py_iloc p idx = Inl err_iloc \<longrightarrow>
    assert_indexing_works e (XPandas p) (Some idx) length_X =
      (case pd_getitem p idx of
         Inr u \<Rightarrow> Inr ()
       | Inl err \<Rightarrow>
           if is_Exception (kind_of err) then Inl (Error TypeError indexing_message)
           else Inl err)"
  by (simp add: assert_indexing_works_def try_iloc_eq iloc_works_def default_idx_def
      split: sum.splits)

lemma asarray_caught:
  "np_asarray y = Inl err_array \<longrightarrow>
    labels_to_array y =
      Inl (Error ValueError
        [Txt ''List of labels must be convertable to 1D numpy array via: np.ndarray(labels).''])"
  by (cases y) simp_all

lemma len_y_propagates:
  "is_PNone pred_probs \<and> \<not> is_tf_dataset e X \<and> accepted_labels_type y
      \<and> normalize_labels y multi_label allow_missing_classes = Inr yn
      \<and> py_len X = Inr k \<and> py_len_labels yn = Inl err \<longrightarrow>
    assert_valid_inputs e X y pred_probs multi_label allow_missing_classes = Inl err"
proof
  assume h: "is_PNone pred_probs \<and> \<not> is_tf_dataset e X \<and> accepted_labels_type y
      \<and> normalize_labels y multi_label allow_missing_classes = Inr yn
      \<and> py_len X = Inr k \<and> py_len_labels yn = Inl err"
  then have n: "\<not> is_None X" by (cases X) simp_all
  have "assert_valid_inputs e X y pred_probs multi_label allow_missing_classes =
     (case check_X e X yn of Inl err \<Rightarrow> Inl err | Inr u \<Rightarrow> Inr [])"
    using h assert_valid_inputs_checked by blast
  then show "assert_valid_inputs e X y pred_probs multi_label allow_missing_classes = Inl err"
    using h n by (simp add: check_X_def assert_nonempty_input_def num_examples_def)
qed

lemma len_pred_probs_propagates:
  "pp_array pred_probs = Some probs \<and> accepted_labels_type y
      \<and> normalize_labels y multi_label allow_missing_classes = Inr yn
      \<and> pp_len pred_probs = Inl err \<longrightarrow>
    assert_valid_inputs e X y pred_probs multi_label allow_missing_classes = Inl err"
  by (simp add: assert_valid_inputs_given check_pred_probs_def)

lemma len_y_propagates_given:
  "pp_array pred_probs = Some probs \<and> accepted_labels_type y
      \<and> normalize_labels y multi_label allow_missing_classes = Inr yn
      \<and> pp_len pred_probs = Inr k \<and> py_len_labels yn = Inl err \<longrightarrow>
    assert_valid_inputs e X y pred_probs multi_label allow_missing_classes = Inl err"
  by (simp add: assert_valid_inputs_given check_pred_probs_def)

lemma np_min_propagates:
  "pp_array pred_probs = Some probs \<and> accepted_labels_type y
      \<and> normalize_labels y multi_label allow_missing_classes = Inr yn
      \<and> pp_len pred_probs = Inr k \<and> py_len_labels yn = Inr k \<and> length (shape probs) = 2
      \<and> out_of_range probs = Inl err \<longrightarrow>
    assert_valid_inputs e X y pred_probs multi_label allow_missing_classes = Inl err"
  by (simp add: assert_valid_inputs_given check_pred_probs_def)

lemma labels_to_array_propagates:
  "accepted_labels_type y \<and> labels_to_array y = Inl err \<longrightarrow>
    assert_valid_inputs e X y pred_probs False allow_missing_classes = Inl err"
  by (simp add: assert_valid_inputs_def normalize_labels_def)

lemma class_labels_propagates:
  "accepted_labels_type y \<and> labels_to_array y = Inr a
      \<and> assert_valid_class_labels a allow_missing_classes = Inl err \<longrightarrow>
    assert_valid_inputs e X y pred_probs False allow_missing_classes = Inl err"
  by (simp add: assert_valid_inputs_def normalize_labels_def)

lemma indexing_propagates:
  "is_PNone pred_probs \<and> \<not> is_tf_dataset e X \<and> accepted_labels_type y
      \<and> normalize_labels y multi_label allow_missing_classes = Inr yn
      \<and> py_len X = Inr k \<and> py_len_labels yn = Inr k
      \<and> assert_indexing_works e X None (Some (int k)) = Inl err \<longrightarrow>
    assert_valid_inputs e X y pred_probs multi_label allow_missing_classes = Inl err"
proof
  assume h: "is_PNone pred_probs \<and> \<not> is_tf_dataset e X \<and> accepted_labels_type y
      \<and> normalize_labels y multi_label allow_missing_classes = Inr yn
      \<and> py_len X = Inr k \<and> py_len_labels yn = Inr k
      \<and> assert_indexing_works e X None (Some (int k)) = Inl err"
  then have n: "\<not> is_None X" by (cases X) simp_all
  have "assert_valid_inputs e X y pred_probs multi_label allow_missing_classes =
     (case check_X e X yn of Inl err \<Rightarrow> Inl err | Inr u \<Rightarrow> Inr [])"
    using h assert_valid_inputs_checked by blast
  then show "assert_valid_inputs e X y pred_probs multi_label allow_missing_classes = Inl err"
    using h n by (simp add: check_X_def assert_nonempty_input_def num_examples_def)
qed

lemma interrupt_propagates:
  "\<not> iloc_works X idx \<and> \<not> is_torch_dataset e X \<and> \<not> is_tf_dataset e X
      \<and> py_getitem X idx = Inl err \<and> \<not> is_Exception (kind_of err) \<longrightarrow>
    assert_indexing_works e X (Some idx) length_X = Inl err"
  by (simp add: assert_indexing_works_def try_iloc_eq default_idx_def)

text \<open>
  C9, as the code has it. Exceptions are caught in these places: the imports of
  torch and tensorflow (when they fail, \<open>.iloc\<close> and \<open>X[idx]\<close> alone decide the
  indexing check, and the checks of \<open>X\<close> run); \<open>len(X)\<close>, after which
  \<open>X.shape[0]\<close> gives the example count, or, when that raises as well, a
  \<open>TypeError\<close> of the module takes their place; \<open>X.iloc[idx]\<close>, after which
  \<open>X[idx]\<close> decides; \<open>X[idx]\<close>, whose \<open>Exception\<close> the \<open>TypeError\<close> of the
  indexing check replaces; and \<open>np.asarray\<close> in \<open>labels_to_array\<close>, whose
  exception a \<open>ValueError\<close> replaces. Every other exception reaches the caller
  as it is: an interrupt of \<open>X[idx]\<close>, an exception of \<open>len(y)\<close>,
  \<open>len(pred_probs)\<close> or \<open>np.min(pred_probs)\<close>, and those that
  \<open>labels_to_array\<close>, \<open>assert_valid_class_labels\<close> and
  \<open>assert_indexing_works\<close> raise.
\<close>

theorem caught_exceptions:
  "(\<not> torch_installed e \<and> \<not> tensorflow_installed e \<longrightarrow>
        assert_indexing_works e X (Some idx) length_X =
          (if iloc_works X idx then Inr ()
           else (case py_getitem X idx of
                   Inr u \<Rightarrow> Inr ()
                 | Inl err \<Rightarrow>
                     if is_Exception (kind_of err) then Inl (Error TypeError indexing_message)
                     else Inl err)))
   \<and> (\<not> tensorflow_installed e \<and> is_PNone pred_probs \<and> accepted_labels_type y
          \<and> normalize_labels y multi_label allow_missing_classes = Inr yn \<longrightarrow>
        assert_valid_inputs e X y pred_probs multi_label allow_missing_classes =
          (case check_X e X yn of Inl err \<Rightarrow> Inl err | Inr u \<Rightarrow> Inr []))
   \<and> (is_PNone pred_probs \<and> \<not> is_tf_dataset e X \<and> accepted_labels_type y
          \<and> normalize_labels y multi_label allow_missing_classes = Inr yn
          \<and> \<not> is_None X \<and> py_len X = Inl err_len \<and> py_shape0 X = Inr n \<longrightarrow>
        assert_valid_inputs e X y pred_probs multi_label allow_missing_classes =
          (case py_len_labels yn of
             Inl err \<Rightarrow> Inl err
           | Inr m \<Rightarrow>
               if n \<noteq> int m
               then Inl (Error ValueError
                      [Txt ''X and labels must be same length, but X is length '', Num n,
                       Txt '' and labels is length '', Num (int m), Txt ''.''])
               else (case assert_indexing_works e X None (Some n) of
                       Inl err \<Rightarrow> Inl err
                     | Inr u \<Rightarrow> Inr [])))
   \<and> (is_PNone pred_probs \<and> \<not> is_tf_dataset e X \<and> accepted_labels_type y
          \<and> normalize_labels y multi_label allow_missing_classes = Inr yn
          \<and> \<not> is_None X \<and> py_len X = Inl err_len \<and> py_shape0 X = Inl err_shape \<longrightarrow>
        assert_valid_inputs e X y pred_probs multi_label allow_missing_classes =
          Inl (Error TypeError [Txt ''Data features X must support either: len(X) or X.shape[0]'']))
   \<and> (py_iloc p idx = Inl err_iloc \<longrightarrow>
        assert_indexing_works e (XPandas p) (Some idx) length_X =
          (case pd_getitem p idx of
             Inr u \<Rightarrow> Inr ()
           | Inl err \<Rightarrow>
               if is_Exception (kind_of err) then Inl (Error TypeError indexing_message)
               else Inl err))
   \<and> (np_asarray y = Inl err_array \<longrightarrow>
        labels_to_array y =
          Inl (Error ValueError
            [Txt ''List of labels must be convertable to 1D numpy array via: np.ndarray(labels).'']))
   \<and> (\<not> iloc_works X idx \<and> \<not> is_torch_dataset e X \<and> \<not> is_tf_dataset e X
          \<and> py_getitem X idx = Inl err \<and> \<not> is_Exception (kind_of err) \<longrightarrow>
        assert_indexing_works e X (Some idx) length_X = Inl err)
   \<and> (is_PNone pred_probs \<and> \<not> is_tf_dataset e X \<and> accepted_labels_type y
          \<and> normalize_labels y multi_label allow_missing_classes = Inr yn
          \<and> py_len X = Inr k \<and> py_len_labels yn = Inl err \<longrightarrow>
        assert_valid_inputs e X y pred_probs multi_label allow_missing_classes = Inl err)
   \<and> (pp_array pred_probs = Some probs \<and> accepted_labels_type y
          \<and> normalize_labels y multi_label allow_missing_classes = Inr yn
          \<and> pp_len pred_probs = Inl err \<longrightarrow>
        assert_valid_inputs e X y pred_probs multi_label allow_missing_classes = Inl err)
   \<and> (pp_array pred_probs = Some probs \<and> accepted_labels_type y
          \<and> normalize_labels y multi_label allow_missing_classes = Inr yn
          \<and> pp_len pred_probs = Inr k \<and> py_len_labels yn = Inl err \<longrightarrow>
        assert_valid_inputs e X y pred_probs multi_label allow_missing_classes = Inl err)
   \<and> (pp_array pred_probs = Some probs \<and> accepted_labels_type y
          \<and> normalize_labels y multi_label allow_missing_classes = Inr yn
          \<and> pp_len pred_probs = Inr k \<and> py_len_labels yn = Inr k \<and> length (shape probs) = 2
          \<and> out_of_range probs = Inl err \<longrightarrow>
        assert_valid_inputs e X y pred_probs multi_label allow_missing_classes = Inl err)
   \<and> (accepted_labels_type y \<and> labels_to_array y = Inl err \<longrightarrow>
        assert_valid_inputs e X y pred_probs False allow_missing_classes = Inl err)
   \<and> (accepted_labels_type y \<and> labels_to_array y = Inr a
          \<and> assert_valid_class_labels a allow_missing_classes = Inl err \<longrightarrow>
        assert_valid_inputs e X y pred_probs False allow_missing_classes = Inl err)
   \<and> (is_PNone pred_probs \<and> \<not> is_tf_dataset e X \<and> accepted_labels_type y
          \<and> normalize_labels y multi_label allow_missing_classes = Inr yn
          \<and> py_len X = Inr k \<and> py_len_labels yn = Inr k
          \<and> assert_indexing_works e X None (Some (int k)) = Inl err \<longrightarrow>
        assert_valid_inputs e X y pred_probs multi_label allow_missing_classes = Inl err)"
  by (intro conjI probes_pass_indexing probe_pass_inputs len_X_caught len_and_shape_caught iloc_caught asarray_caught interrupt_propagates len_y_propagates len_pred_probs_propagates len_y_propagates_given np_min_propagates labels_to_array_propagates class_labels_propagates indexing_propagates)

theorem caught_exceptions_witness:
  "assert_indexing_works no_libraries (XTorch bracket_only) (Some [0, 1]) None = Inr ()
   \<and> assert_valid_inputs no_libraries (XTf five_batches) (YList [PyInt 0, PyInt 1])
        PNone False False =
       Inl (Error ValueError
         [Txt ''X and labels must be same length, but X is length '', Num 5,
          Txt '' and labels is length '', Num 2, Txt ''.''])
   \<and> py_len (XObject sparse_matrix) =
       Inl (Error TypeError [Txt ''sparse array length is ambiguous; use getnnz() or shape[0]''])
   \<and> py_shape0 (XObject sparse_matrix) = Inr 2
   \<and> assert_valid_inputs no_libraries (XObject sparse_matrix) (YList [PyInt 0, PyInt 1])
        PNone False False = Inr []
   \<and> py_len (XObject unsized) = Inl (Error TypeError [Txt ''object has no len()''])
   \<and> py_shape0 (XObject unsized) =
       Inl (Error AttributeError [Txt ''object has no attribute shape''])
   \<and> assert_valid_inputs no_libraries (XObject unsized) (YList [PyInt 0, PyInt 1])
        PNone False False =
       Inl (Error TypeError [Txt ''Data features X must support either: len(X) or X.shape[0]''])
   \<and> py_iloc series_0_5 [0, 5] =
       Inl (Error IndexError [Txt ''positional indexers are out-of-bounds''])
   \<and> assert_indexing_works no_libraries (XPandas series_0_5) (Some [0, 5]) None = Inr ()
   \<and> np_asarray (YList [PyList [PyInt 1, PyInt 2], PyList [PyInt 3]]) =
       Inl (Error ValueError
         [Txt ''setting an array element with a sequence. The requested array has an inhomogeneous shape.''])
   \<and> labels_to_array (YList [PyList [PyInt 1, PyInt 2], PyList [PyInt 3]]) =
       Inl (Error ValueError
         [Txt ''List of labels must be convertable to 1D numpy array via: np.ndarray(labels).''])
   \<and> py_getitem (XObject interrupted) [0, 1] =
       Inl (Error NonException [Txt ''KeyboardInterrupt''])
   \<and> assert_indexing_works no_libraries (XObject interrupted) (Some [0, 1]) None =
       Inl (Error NonException [Txt ''KeyboardInterrupt''])
   \<and> py_len_labels (YGeneric 3) =
       Inl (Error TypeError [Txt ''object of type numpy.int64 has no len()''])
   \<and> assert_valid_inputs no_libraries (XList [PyInt 1, PyInt 2]) (YGeneric 3) PNone True False =
       Inl (Error TypeError [Txt ''object of type numpy.int64 has no len()''])
   \<and> pp_len (PGeneric (1/2)) =
       Inl (Error TypeError [Txt ''object of type numpy.float64 has no len()''])
   \<and> assert_valid_inputs no_libraries XNone (YList [PyInt 0, PyInt 1]) (PGeneric (1/2))
        False False =
       Inl (Error TypeError [Txt ''object of type numpy.float64 has no len()''])
   \<and> assert_valid_inputs no_libraries XNone (YGeneric 3)
        (PArray \<lparr>shape = [2, 2], elems = [1/2, 1/2, 1/2, 1/2]\<rparr>) True False =
       Inl (Error TypeError [Txt ''object of type numpy.int64 has no len()''])
   \<and> out_of_range \<lparr>shape = [0, 2], elems = []\<rparr> =
       Inl (Error ValueError
         [Txt ''zero-size array to reduction operation minimum which has no identity''])
   \<and> assert_valid_inputs no_libraries XNone (YList []) (PArray \<lparr>shape = [0, 2], elems = []\<rparr>)
        False True =
       Inl (Error ValueError
         [Txt ''zero-size array to reduction operation minimum which has no identity''])
   \<and> assert_valid_inputs no_libraries XNone (YList [PyList [PyInt 1, PyInt 2], PyList [PyInt 3]])
        PNone False False =
       Inl (Error ValueError
         [Txt ''List of labels must be convertable to 1D numpy array via: np.ndarray(labels).''])
   \<and> assert_valid_class_labels \<lparr>shape = [1], elems = [0]\<rparr> False =
       Inl (Error ValueError [Txt ''Labels must contain at least 2 classes.''])
   \<and> assert_valid_inputs no_libraries XNone (YList [PyInt 0]) PNone False False =
       Inl (Error ValueError [Txt ''Labels must contain at least 2 classes.''])
   \<and> assert_indexing_works no_libraries (XList [PyInt 1, PyInt 2]) None (Some (int 2)) =
       Inl (Error TypeError indexing_message)
   \<and> assert_valid_inputs no_libraries (XList [PyInt 1, PyInt 2]) (YList [PyInt 0, PyInt 1])
        PNone False False =
       Inl (Error TypeError indexing_message)"
proof -
  let ?y = "YList [PyInt 0, PyInt 1]"
  let ?a = "YArray \<lparr>shape = [2], elems = [0, 1]\<rparr>"
  let ?rag = "YList [PyList [PyInt 1, PyInt 2], PyList [PyInt 3]]"
  let ?pp = "PArray \<lparr>shape = [2, 2], elems = [1/2, 1/2, 1/2, 1/2]\<rparr>"
  let ?p0 = "\<lparr>shape = [0, 2], elems = ([]::real list)\<rparr>"
  let ?L = "XList [PyInt 1, PyInt 2]"
  let ?e_sparse = "Error TypeError [Txt ''sparse array length is ambiguous; use getnnz() or shape[0]'']"
  let ?e_len = "Error TypeError [Txt ''object has no len()'']"
  let ?e_shape = "Error AttributeError [Txt ''object has no attribute shape'']"
  let ?e_iloc = "Error IndexError [Txt ''positional indexers are out-of-bounds'']"
  let ?e_rag = "Error ValueError
         [Txt ''setting an array element with a sequence. The requested array has an inhomogeneous shape.'']"
  let ?e_conv = "Error ValueError
         [Txt ''List of labels must be convertable to 1D numpy array via: np.ndarray(labels).'']"
  let ?e_int = "Error NonException [Txt ''KeyboardInterrupt'']"
  let ?e_i64 = "Error TypeError [Txt ''object of type numpy.int64 has no len()'']"
  let ?e_f64 = "Error TypeError [Txt ''object of type numpy.float64 has no len()'']"
  let ?e_min = "Error ValueError
         [Txt ''zero-size array to reduction operation minimum which has no identity'']"
  let ?e_two = "Error ValueError [Txt ''Labels must contain at least 2 classes.'']"
  have n: "normalize_labels ?y False False = Inr ?a"
    by (simp add: normalize_labels_def np_asarray_list_def
      assert_valid_class_labels_def ndim_def np_unique_def np_arange_def)
  have ng: "normalize_labels (YGeneric 3) True False = Inr (YGeneric 3)"
    by (simp add: normalize_labels_def)
  have n0: "normalize_labels (YList []) False True = Inr (YArray \<lparr>shape = [0], elems = []\<rparr>)"
    by (simp add: normalize_labels_def np_asarray_list_def assert_valid_class_labels_def ndim_def)
  have la: "py_len_labels ?a = Inr 2" "py_len_labels (YArray \<lparr>shape = [0], elems = []\<rparr>) = Inr 0"
    by (simp_all add: np_len_def)
  have s: "py_len (XObject sparse_matrix) = Inl ?e_sparse" "py_shape0 (XObject sparse_matrix) = Inr 2"
    by (simp_all add: sparse_matrix_def)
  have u: "py_len (XObject unsized) = Inl ?e_len" "py_shape0 (XObject unsized) = Inl ?e_shape"
    by (simp_all add: unsized_def)
  have i: "py_iloc series_0_5 [0, 5] = Inl ?e_iloc"
    by (simp add: series_0_5_def py_iloc_def in_bounds_def)
  have g: "pd_getitem series_0_5 [0, 5] = Inr ()"
    by (simp add: series_0_5_def getitem_labels_def)
  have ix: "assert_indexing_works no_libraries (XObject sparse_matrix) None (Some 2) = Inr ()"
    by (simp add: assert_indexing_works_def try_iloc_def sparse_matrix_def)
  have nl: "\<not> torch_installed no_libraries" "\<not> tensorflow_installed no_libraries"
    by (simp_all add: no_libraries_def)
  have rag: "np_asarray ?rag = Inl ?e_rag" by (simp add: np_asarray_list_def)
  have conv: "labels_to_array ?rag = Inl ?e_conv" by (simp add: np_asarray_list_def)
  have gi: "py_getitem (XObject interrupted) [0, 1] = Inl ?e_int" by (simp add: interrupted_def)
  have ni: "\<not> iloc_works (XObject interrupted) [0, 1]" by (simp add: iloc_works_def)
  have pl: "pp_len ?pp = Inr 2" "pp_len (PArray ?p0) = Inr 0" by (simp_all add: np_len_def)
  have om: "out_of_range ?p0 = Inl ?e_min" by (simp add: out_of_range_def)
  have lt: "labels_to_array (YList [PyInt 0]) = Inr \<lparr>shape = [1], elems = [0]\<rparr>"
    by (simp add: np_asarray_list_def)
  have two: "assert_valid_class_labels \<lparr>shape = [1], elems = [0]\<rparr> False = Inl ?e_two"
    by (simp add: assert_valid_class_labels_def ndim_def np_unique_def)
  have il: "assert_indexing_works no_libraries ?L None (Some (int 2)) =
      Inl (Error TypeError indexing_message)"
    by (simp add: assert_indexing_works_def try_iloc_def)
  have r1: "assert_indexing_works no_libraries (XTorch bracket_only) (Some [0, 1]) None = Inr ()"
    using caught_exceptions [where e = no_libraries and X = "XTorch bracket_only" and idx = "[0, 1]"
        and length_X = None] nl
    by (simp add: iloc_works_def bracket_only_def)
  have r2: "assert_valid_inputs no_libraries (XTf five_batches) ?y PNone False False =
       Inl (Error ValueError
         [Txt ''X and labels must be same length, but X is length '', Num 5,
          Txt '' and labels is length '', Num 2, Txt ''.''])"
    using caught_exceptions [where e = no_libraries and X = "XTf five_batches" and pred_probs = PNone
        and y = ?y and multi_label = False and allow_missing_classes = False and yn = ?a] nl n la
    by (simp add: check_X_def assert_nonempty_input_def num_examples_def five_batches_def)
  have r3: "assert_valid_inputs no_libraries (XObject sparse_matrix) ?y PNone False False = Inr []"
    using caught_exceptions [where pred_probs = PNone and e = no_libraries and X = "XObject sparse_matrix"
          and y = ?y and multi_label = False and allow_missing_classes = False and yn = ?a
          and err_len = ?e_sparse and n = 2]
      n s la ix by simp
  have r4: "assert_valid_inputs no_libraries (XObject unsized) ?y PNone False False =
       Inl (Error TypeError [Txt ''Data features X must support either: len(X) or X.shape[0]''])"
    using caught_exceptions [where pred_probs = PNone and e = no_libraries and X = "XObject unsized"
          and y = ?y and multi_label = False and allow_missing_classes = False and yn = ?a
          and err_len = ?e_len and err_shape = ?e_shape]
      n u by simp
  have r5: "assert_indexing_works no_libraries (XPandas series_0_5) (Some [0, 5]) None = Inr ()"
    using caught_exceptions [where p = series_0_5 and idx = "[0, 5]" and err_iloc = ?e_iloc
          and e = no_libraries and length_X = None] i g by simp
  have r6: "labels_to_array ?rag = Inl ?e_conv"
    using caught_exceptions [where y = ?rag and err_array = ?e_rag] rag by blast
  have r7: "assert_indexing_works no_libraries (XObject interrupted) (Some [0, 1]) None = Inl ?e_int"
    using caught_exceptions [where X = "XObject interrupted" and idx = "[0, 1]" and e = no_libraries
          and err = ?e_int and length_X = None] gi ni by simp
  have r8: "assert_valid_inputs no_libraries ?L (YGeneric 3) PNone True False = Inl ?e_i64"
    using caught_exceptions [where pred_probs = PNone and e = no_libraries and X = ?L and y = "YGeneric 3"
          and multi_label = True and allow_missing_classes = False and yn = "YGeneric 3"
          and k = 2 and err = ?e_i64] ng by simp
  have r9: "assert_valid_inputs no_libraries XNone ?y (PGeneric (1/2)) False False = Inl ?e_f64"
    using caught_exceptions [where pred_probs = "PGeneric (1/2)" and e = no_libraries and X = XNone and y = ?y
          and multi_label = False and allow_missing_classes = False and yn = ?a
          and probs = "\<lparr>shape = [], elems = [1/2]\<rparr>" and err = ?e_f64] n by simp
  have r10: "assert_valid_inputs no_libraries XNone (YGeneric 3) ?pp True False = Inl ?e_i64"
    using caught_exceptions [where pred_probs = ?pp and e = no_libraries and X = XNone and y = "YGeneric 3"
          and multi_label = True and allow_missing_classes = False and yn = "YGeneric 3"
          and probs = "\<lparr>shape = [2, 2], elems = [1/2, 1/2, 1/2, 1/2]\<rparr>" and k = 2
          and err = ?e_i64] ng pl by simp
  have r11: "assert_valid_inputs no_libraries XNone (YList []) (PArray ?p0) False True = Inl ?e_min"
    using caught_exceptions [where pred_probs = "PArray ?p0" and e = no_libraries and X = XNone
          and y = "YList []" and multi_label = False and allow_missing_classes = True
          and yn = "YArray \<lparr>shape = [0], elems = []\<rparr>" and probs = ?p0 and k = 0
          and err = ?e_min] n0 la pl om by simp
  have r12: "assert_valid_inputs no_libraries XNone ?rag PNone False False = Inl ?e_conv"
    using caught_exceptions [where y = ?rag and err = ?e_conv and e = no_libraries and X = XNone
          and pred_probs = PNone and allow_missing_classes = False] conv by simp
  have r13: "assert_valid_inputs no_libraries XNone (YList [PyInt 0]) PNone False False = Inl ?e_two"
    using caught_exceptions [where y = "YList [PyInt 0]" and a = "\<lparr>shape = [1], elems = [0]\<rparr>"
          and err = ?e_two and e = no_libraries and X = XNone
          and pred_probs = PNone and allow_missing_classes = False] lt two by simp
  have r14: "assert_valid_inputs no_libraries ?L ?y PNone False False =
       Inl (Error TypeError indexing_message)"
    using caught_exceptions [where pred_probs = PNone and e = no_libraries and X = ?L and y = ?y
          and multi_label = False and allow_missing_classes = False and yn = ?a
          and k = 2 and err = "Error TypeError indexing_message"] n la il by simp
  show ?thesis
    using s u i rag gi om two il r1 r2 r3 r4 r5 r6 r7 r8 r9 r10 r11 r12 r13 r14
    by simp
qed

text \<open>
  C9, as the claim has it, fails. On a sparse matrix \<open>len(X)\<close> raises and
  \<open>assert_valid_inputs\<close> returns normally; on a Series of two rows
  \<open>X.iloc[[0, 5]]\<close> raises and \<open>assert_indexing_works\<close> returns normally.
\<close>

theorem caught_exceptions_do_not_propagate:
  "py_len (XObject sparse_matrix) =
     Inl (Error TypeError [Txt ''sparse array length is ambiguous; use getnnz() or shape[0]''])
   \<and> assert_valid_inputs no_libraries (XObject sparse_matrix) (YList [PyInt 0, PyInt 1])
        PNone False False = Inr []
   \<and> py_iloc series_0_5 [0, 5] = Inl (Error IndexError [Txt ''positional indexers are out-of-bounds''])
   \<and> assert_indexing_works no_libraries (XPandas series_0_5) (Some [0, 5]) None = Inr ()"
  by (simp add: sparse_matrix_def series_0_5_def no_libraries_def py_iloc_def in_bounds_def
      getitem_labels_def
      assert_valid_inputs_def normalize_labels_def np_asarray_list_def
      assert_valid_class_labels_def ndim_def np_unique_def np_arange_def
      check_X_def assert_nonempty_input_def num_examples_def np_len_def
      assert_indexing_works_def try_iloc_def default_idx_def Let_def)

end
